theory Spec2Isabelle
  imports Complex_Main "HOL-Library.Multiset" "HOL-Library.Char_ord" "HOL-Library.List_Lexorder"
begin

section \<open>JavaScript values as the handlers see them\<close>

text \<open>
  The component of \<^verbatim>\<open>MindVectorGraph.tsx\<close> receives its data through \<^verbatim>\<open>JSON.parse\<close> and
  \<^verbatim>\<open>resp.json()\<close>, so the handlers work on untyped values. A number is an IEEE double;
  the handlers only test it for truthiness and for being \<^verbatim>\<open>NaN\<close>, so a double is modelled
  by its class: not-a-number, one of the two infinities, or a finite value (a rational;
  the two signed zeros are one value).
\<close>

datatype jsnum = NaN | PosInf | NegInf | Fin rat

datatype js =
    JUndefined
  | JNull
  | JBool bool
  | JNum jsnum
  | JStr string
  | JArr "js list"
  | JObj "(string \<times> js) list"

text \<open>An exception thrown inside a \<^verbatim>\<open>try\<close> block.\<close>

datatype exn = TypeError

text \<open>Truthiness, as \<^verbatim>\<open>!x\<close>, \<^verbatim>\<open>a || b\<close>, \<^verbatim>\<open>a && b\<close> and \<^verbatim>\<open>c ? x : y\<close> test it.\<close>

fun truthy :: "js \<Rightarrow> bool" where
  "truthy JUndefined = False"
| "truthy JNull = False"
| "truthy (JBool b) = b"
| "truthy (JNum n) = (n \<noteq> NaN \<and> n \<noteq> Fin 0)"
| "truthy (JStr s) = (s \<noteq> [])"
| "truthy (JArr xs) = True"
| "truthy (JObj kvs) = True"

text \<open>\<^verbatim>\<open>a || b\<close> and \<^verbatim>\<open>a ?? b\<close>.\<close>

definition js_or :: "js \<Rightarrow> js \<Rightarrow> js" where
  "js_or a b = (if truthy a then a else b)"

definition js_coalesce :: "js \<Rightarrow> js \<Rightarrow> js" where
  "js_coalesce a b = (if a = JUndefined \<or> a = JNull then b else a)"

text \<open>
  \<^verbatim>\<open>x.k\<close> for the property names the handlers read (\<^verbatim>\<open>type\<close>, \<^verbatim>\<open>data\<close>, \<^verbatim>\<open>timestamp\<close>,
  \<^verbatim>\<open>dimensions\<close>, \<^verbatim>\<open>vector\<close>, \<^verbatim>\<open>visualState\<close>, \<^verbatim>\<open>emoji\<close>, \<^verbatim>\<open>name\<close>, \<^verbatim>\<open>label\<close>, \<^verbatim>\<open>value\<close>):
  reading a property of \<^verbatim>\<open>null\<close> or \<^verbatim>\<open>undefined\<close> throws a TypeError (\<open>None\<close>), a
  primitive or an array has none of these properties, and in a parsed object the last
  occurrence of a key wins.
\<close>

fun get_prop :: "js \<Rightarrow> string \<Rightarrow> js option" where
  "get_prop JUndefined k = None"
| "get_prop JNull k = None"
| "get_prop (JObj kvs) k = Some (case map_of (rev kvs) k of Some v \<Rightarrow> v | None \<Rightarrow> JUndefined)"
| "get_prop (JBool b) k = Some JUndefined"
| "get_prop (JNum n) k = Some JUndefined"
| "get_prop (JStr s) k = Some JUndefined"
| "get_prop (JArr xs) k = Some JUndefined"

text \<open>\<^verbatim>\<open>x?.k\<close>: \<^verbatim>\<open>undefined\<close> where \<^verbatim>\<open>x.k\<close> would throw.\<close>

definition opt_prop :: "js \<Rightarrow> string \<Rightarrow> js" where
  "opt_prop x k = (case get_prop x k of None \<Rightarrow> JUndefined | Some v \<Rightarrow> v)"

text \<open>
  The string conversion of a value throws a TypeError when no callable \<^verbatim>\<open>toString\<close> or
  \<^verbatim>\<open>valueOf\<close> yields a primitive: for a parsed object that is when it has a key
  \<^verbatim>\<open>toString\<close> of its own (a parsed value is never callable, and the inherited
  \<^verbatim>\<open>valueOf\<close> returns the object itself); for an array, whose string form joins the
  string forms of its elements, when that of an element throws.
\<close>

fun to_string_throws :: "js \<Rightarrow> bool" where
  "to_string_throws (JObj kvs) = (''toString'' \<in> set (map fst kvs))"
| "to_string_throws (JArr xs) = list_ex to_string_throws xs"
| "to_string_throws JUndefined = False"
| "to_string_throws JNull = False"
| "to_string_throws (JBool b) = False"
| "to_string_throws (JNum n) = False"
| "to_string_throws (JStr s) = False"

text \<open>
  The number a value converts to when the conversion does not throw. The conversion of a
  string (ECMAScript's StringToNumber) is a builtin of the platform and is the parameter
  \<open>s2n\<close>. An object is converted through its string form: \<^verbatim>\<open>"[object Object]"\<close> for a
  plain object, the elements joined by commas for an array. So the empty array reads as
  the empty string, an array of one element reads as that element's string form (empty
  for \<^verbatim>\<open>null\<close> and \<^verbatim>\<open>undefined\<close>; a number prints and reads back as itself), and an
  array of two or more elements contains a comma, which no numeric literal does.
\<close>

fun number_value :: "(string \<Rightarrow> jsnum) \<Rightarrow> js \<Rightarrow> jsnum" where
  "number_value s2n JUndefined = NaN"
| "number_value s2n JNull = Fin 0"
| "number_value s2n (JBool b) = (if b then Fin 1 else Fin 0)"
| "number_value s2n (JNum n) = n"
| "number_value s2n (JStr s) = s2n s"
| "number_value s2n (JObj kvs) = s2n ''[object Object]''"
| "number_value s2n (JArr []) = s2n []"
| "number_value s2n (JArr [JUndefined]) = s2n []"
| "number_value s2n (JArr [JNull]) = s2n []"
| "number_value s2n (JArr [JBool b]) = s2n (if b then ''true'' else ''false'')"
| "number_value s2n (JArr [JNum n]) = n"
| "number_value s2n (JArr [JStr s]) = s2n s"
| "number_value s2n (JArr [JObj kvs]) = s2n ''[object Object]''"
| "number_value s2n (JArr [JArr ys]) = number_value s2n (JArr ys)"
| "number_value s2n (JArr (x # y # zs)) = NaN"

text \<open>\<^verbatim>\<open>Number(x)\<close>.\<close>

definition Number :: "(string \<Rightarrow> jsnum) \<Rightarrow> js \<Rightarrow> exn + jsnum" where
  "Number s2n x = (if to_string_throws x then Inl TypeError else Inr (number_value s2n x))"

text \<open>
  \<^verbatim>\<open>xs.map(f)\<close> for a callback that may throw: the first exception ends the loop.
\<close>

fun map_exn :: "('a \<Rightarrow> exn + 'b) \<Rightarrow> 'a list \<Rightarrow> exn + 'b list" where
  "map_exn f [] = Inr []"
| "map_exn f (x # xs) =
     (case f x of
        Inl e \<Rightarrow> Inl e
      | Inr y \<Rightarrow> (case map_exn f xs of Inl e \<Rightarrow> Inl e | Inr ys \<Rightarrow> Inr (y # ys)))"

text \<open>\<^verbatim>\<open>n || 0\<close> on a number: \<^verbatim>\<open>NaN\<close> and zero are falsy, every other number is kept.\<close>

definition num_or_zero :: "jsnum \<Rightarrow> jsnum" where
  "num_or_zero n = (if n = NaN \<or> n = Fin 0 then Fin 0 else n)"

definition is_finite :: "jsnum \<Rightarrow> bool" where
  "is_finite n = (case n of Fin q \<Rightarrow> True | _ \<Rightarrow> False)"

text \<open>
  The fragment of StringToNumber used to evaluate concrete inputs: the empty string is
  0, a string of decimal digits is its value, and a string with any other character is
  read as \<^verbatim>\<open>NaN\<close> (which is what the platform does for text such as \<^verbatim>\<open>"x"\<close>; signs,
  fractions, exponents, white space and \<^verbatim>\<open>"Infinity"\<close> are outside the fragment).
\<close>

definition digit_val :: "char \<Rightarrow> nat" where
  "digit_val c = of_char c - 48"

definition is_digit :: "char \<Rightarrow> bool" where
  "is_digit c = (48 \<le> (of_char c :: nat) \<and> (of_char c :: nat) \<le> 57)"

definition StringToNumber_digits :: "string \<Rightarrow> jsnum" where
  "StringToNumber_digits s =
     (if list_all is_digit s
      then Fin (of_nat (foldl (\<lambda>acc c. 10 * acc + digit_val c) 0 s))
      else NaN)"

section \<open>The mind vector and its radar data\<close>

text \<open>
  \<^verbatim>\<open>type MindVector\<close>. The handlers fill the fields with whatever the payload holds, so at
  run time each field is an untyped value.
\<close>

record MindVector =
  timestamp :: js
  dimensions :: js
  visualState :: js
  emoji :: js

text \<open>
  An element of \<^verbatim>\<open>dimensions\<close> at its declared type \<^verbatim>\<open>{ name: string; value: number }\<close>.
  The value stays untyped: \<^verbatim>\<open>normalizeToRadarData\<close> coerces it with \<^verbatim>\<open>Number\<close>.
\<close>

record dimension =
  dim_name :: string
  dim_value :: js

record radar_point =
  subject :: string
  rvalue :: jsnum

fun as_dimension :: "js \<Rightarrow> dimension option" where
  "as_dimension (JObj kvs) =
     (case opt_prop (JObj kvs) ''name'' of
        JStr n \<Rightarrow> Some \<lparr>dim_name = n, dim_value = opt_prop (JObj kvs) ''value''\<rparr>
      | _ \<Rightarrow> None)"
| "as_dimension _ = None"

fun as_dimensions :: "js \<Rightarrow> dimension list option" where
  "as_dimensions (JArr xs) =
     (if list_all (\<lambda>x. as_dimension x \<noteq> None) xs then Some (map (\<lambda>x. the (as_dimension x)) xs)
      else None)"
| "as_dimensions _ = None"

text \<open>
  \<^verbatim>\<open>normalizeToRadarData\<close>: a copy of the dimensions, sorted by
  \<^verbatim>\<open>a.name.localeCompare(b.name)\<close>, each mapped to \<^verbatim>\<open>{subject: d.name, value: Number(d.value) || 0}\<close>.
  \<^verbatim>\<open>localeCompare\<close> is the platform's collation; it is the parameter \<open>collate\<close>, a key
  into a linear order with \<^verbatim>\<open>a.localeCompare(b) < 0\<close> exactly when \<open>collate a < collate b\<close>.
  \<^verbatim>\<open>Array.prototype.sort\<close> is stable, and so is \<^const>\<open>sort_key\<close>. The result is \<open>None\<close>
  where the vector's dimensions are not of the declared type (the function is not
  modelled there), and \<open>Some (Inl TypeError)\<close> where a value cannot be converted.
\<close>

definition radar_of :: "(string \<Rightarrow> jsnum) \<Rightarrow> dimension \<Rightarrow> exn + radar_point" where
  "radar_of s2n d =
     (case Number s2n (dim_value d) of
        Inl e \<Rightarrow> Inl e
      | Inr n \<Rightarrow> Inr \<lparr>subject = dim_name d, rvalue = num_or_zero n\<rparr>)"

definition normalizeToRadarData ::
  "(string \<Rightarrow> 'k::linorder) \<Rightarrow> (string \<Rightarrow> jsnum) \<Rightarrow> MindVector \<Rightarrow> (exn + radar_point list) option" where
  "normalizeToRadarData collate s2n vector =
     (case as_dimensions (dimensions vector) of
        None \<Rightarrow> None
      | Some ds \<Rightarrow> Some (map_exn (radar_of s2n) (sort_key (\<lambda>d. collate (dim_name d)) ds)))"

text \<open>The vector built by the push handler from \<^verbatim>\<open>payload.data\<close> (a truthy value).\<close>

definition ws_vector :: "js \<Rightarrow> string \<Rightarrow> MindVector" where
  "ws_vector d now =
     \<lparr>timestamp = js_or (opt_prop d ''timestamp'') (JStr now),
      dimensions = js_or (opt_prop d ''dimensions'') (JArr []),
      visualState = opt_prop d ''visualState'',
      emoji = opt_prop d ''emoji''\<rparr>"

text \<open>
  The callback of \<^verbatim>\<open>data.vector.map\<close> in \<^verbatim>\<open>fetchOnce\<close>:
  \<^verbatim>\<open>(v) => ({ name: v.name || v.label || "dim", value: Number(v.value ?? 0) })\<close>.
\<close>

definition vector_entry :: "(string \<Rightarrow> jsnum) \<Rightarrow> js \<Rightarrow> exn + js" where
  "vector_entry s2n v =
     (case get_prop v ''name'' of
        None \<Rightarrow> Inl TypeError
      | Some n \<Rightarrow>
          (case Number s2n (js_coalesce (opt_prop v ''value'') (JNum (Fin 0))) of
             Inl e \<Rightarrow> Inl e
           | Inr x \<Rightarrow>
               Inr (JObj [(''name'', js_or (js_or n (opt_prop v ''label'')) (JStr ''dim'')),
                          (''value'', JNum x)])))"

text \<open>
  \<^verbatim>\<open>data.dimensions || (data.vector ? data.vector.map(...) : [])\<close>; only an array has a
  \<^verbatim>\<open>map\<close> method, so a truthy \<^verbatim>\<open>vector\<close> of another kind throws.
\<close>

definition fetch_dimensions :: "(string \<Rightarrow> jsnum) \<Rightarrow> js \<Rightarrow> exn + js" where
  "fetch_dimensions s2n data =
     (if truthy (opt_prop data ''dimensions'') then Inr (opt_prop data ''dimensions'')
      else if truthy (opt_prop data ''vector'') then
        (case opt_prop data ''vector'' of
           JArr vs \<Rightarrow> (case map_exn (vector_entry s2n) vs of Inl e \<Rightarrow> Inl e | Inr ds \<Rightarrow> Inr (JArr ds))
         | _ \<Rightarrow> Inl TypeError)
      else Inr (JArr []))"

text \<open>The vector built by \<^verbatim>\<open>fetchOnce\<close> from the parsed body \<^verbatim>\<open>data\<close>.\<close>

definition fetch_vector :: "(string \<Rightarrow> jsnum) \<Rightarrow> js \<Rightarrow> string \<Rightarrow> exn + MindVector" where
  "fetch_vector s2n data now =
     (case get_prop data ''timestamp'' of
        None \<Rightarrow> Inl TypeError
      | Some ts \<Rightarrow>
          (case fetch_dimensions s2n data of
             Inl e \<Rightarrow> Inl e
           | Inr ds \<Rightarrow>
               Inr \<lparr>timestamp = js_or ts (JStr now),
                    dimensions = ds,
                    visualState = opt_prop data ''visualState'',
                    emoji = opt_prop data ''emoji''\<rparr>))"

section \<open>The component: props, state and environment\<close>

text \<open>
  \<^verbatim>\<open>MindVectorGraphProps\<close>. An absent prop is \<open>None\<close>; \<^verbatim>\<open>!url\<close> also holds for the empty
  string. \<open>has_onUpdate\<close> says whether the optional callback was supplied, and
  \<open>websocketUrlValid\<close> whether \<^verbatim>\<open>new WebSocket(websocketUrl)\<close> returns (it throws on a URL
  it cannot parse).
\<close>

record props =
  walletAddress :: "string option"
  websocketUrl :: "string option"
  fetchApiUrl :: "string option"
  pollingIntervalMs :: nat
  has_onUpdate :: bool
  websocketUrlValid :: bool

definition given :: "string option \<Rightarrow> bool" where
  "given x = (case x of None \<Rightarrow> False | Some s \<Rightarrow> s \<noteq> [])"

definition the_str :: "string option \<Rightarrow> string" where
  "the_str x = (case x of None \<Rightarrow> [] | Some s \<Rightarrow> s)"

datatype readyState = Connecting | Open | Closing | Closed

text \<open>
  The state of one mounted component: the React state (\<open>current\<close>, \<open>history\<close>,
  \<open>statusMessage\<close>), the refs, and what the component has handed to its environment: the
  sockets it created (by index) with their ready state, the messages sent on them, the
  pending reconnection timeouts, the running intervals, the requests issued and the
  number still in flight, and the vectors passed to \<^verbatim>\<open>onUpdate\<close>, oldest first.
\<close>

record state =
  current :: "MindVector option"
  history :: "MindVector list"
  statusMessage :: string
  mountedRef :: bool
  wsRef :: "nat option"
  pollingRef :: "nat option"
  sockets :: "readyState list"
  sent :: "(nat \<times> js) list"
  reconnectTimers :: nat
  intervals :: "nat list"
  nextIntervalId :: nat
  requests :: "(string \<times> string) list"
  inflight :: nat
  updates :: "MindVector list"

text \<open>The two characters of the status texts outside ASCII, in UTF-8.\<close>

definition ellipsis :: string where
  "ellipsis = [CHR 0xE2, CHR 0x80, CHR 0xA6]"

definition emdash :: string where
  "emdash = [CHR 0xE2, CHR 0x80, CHR 0x94]"

definition initial :: state where
  "initial =
     \<lparr>current = None, history = [], statusMessage = ''Initializing'' @ ellipsis,
      mountedRef = True, wsRef = None, pollingRef = None, sockets = [], sent = [],
      reconnectTimers = 0, intervals = [], nextIntervalId = 0, requests = [], inflight = 0,
      updates = []\<rparr>"

text \<open>The argument of \<^verbatim>\<open>JSON.stringify\<close> stands for the text sent.\<close>

definition subscribeMsg :: "props \<Rightarrow> js" where
  "subscribeMsg p =
     JObj [(''type'', JStr ''subscribe''), (''topic'', JStr ''mindVector''),
           (''wallet'', JStr (the_str (walletAddress p)))]"

definition pongMsg :: js where
  "pongMsg = JObj [(''type'', JStr ''pong'')]"

text \<open>
  \<^verbatim>\<open>ws.send(m)\<close> on socket \<open>i\<close>: the message leaves on an open socket and is discarded
  on a closing or closed one. (The handlers that send run on an open socket only.)
\<close>

definition ws_send :: "nat \<Rightarrow> js \<Rightarrow> state \<Rightarrow> state" where
  "ws_send i m s = (if i < length (sockets s) \<and> sockets s ! i = Open
                    then s\<lparr>sent := sent s @ [(i, m)]\<rparr> else s)"

text \<open>\<^verbatim>\<open>ws.close()\<close>: a connecting or open socket starts closing.\<close>

definition ws_close :: "nat \<Rightarrow> state \<Rightarrow> state" where
  "ws_close i s =
     (if i < length (sockets s) \<and> (sockets s ! i = Connecting \<or> sockets s ! i = Open)
      then s\<lparr>sockets := (sockets s)[i := Closing]\<rparr> else s)"

text \<open>
  The accepted-update block shared by both handlers:
  \<^verbatim>\<open>setCurrent(vector); setHistory((h) => [vector, ...h].slice(0, 50)); onUpdate?.(vector);
  setStatusMessage(...)\<close>.
\<close>

definition history_push :: "MindVector \<Rightarrow> MindVector list \<Rightarrow> MindVector list" where
  "history_push vector h = take 50 (vector # h)"

definition accept :: "props \<Rightarrow> MindVector \<Rightarrow> string \<Rightarrow> state \<Rightarrow> state" where
  "accept p vector msg s =
     s\<lparr>current := Some vector,
       history := history_push vector (history s),
       updates := (if has_onUpdate p then updates s @ [vector] else updates s),
       statusMessage := msg\<rparr>"

section \<open>The handlers\<close>

text \<open>\<^verbatim>\<open>connectWebSocket\<close>, up to the registration of the listeners.\<close>

definition connectWebSocket :: "props \<Rightarrow> state \<Rightarrow> state" where
  "connectWebSocket p s =
     (if \<not> given (websocketUrl p) \<or> \<not> given (walletAddress p) then
        s\<lparr>statusMessage := ''No WebSocket configured or wallet unspecified '' @ emdash @
                            '' using HTTP fallback.''\<rparr>
      else if \<not> websocketUrlValid p then
        s\<lparr>statusMessage := ''WebSocket init error. Using HTTP fallback.''\<rparr>
      else
        s\<lparr>sockets := sockets s @ [Connecting],
          wsRef := Some (length (sockets s)),
          statusMessage := ''Connecting to live updates'' @ ellipsis\<rparr>)"

text \<open>The \<^verbatim>\<open>open\<close> listener of socket \<open>i\<close>.\<close>

definition on_open :: "props \<Rightarrow> nat \<Rightarrow> state \<Rightarrow> state" where
  "on_open p i s =
     ws_send i (subscribeMsg p)
       (s\<lparr>statusMessage := ''Connected. Subscribing to mind vector updates'' @ ellipsis\<rparr>)"

text \<open>
  The \<^verbatim>\<open>message\<close> listener of socket \<open>i\<close>. \<open>payload\<close> is the result of
  \<^verbatim>\<open>JSON.parse(evt.data)\<close>, \<open>None\<close> when it throws (the \<^verbatim>\<open>catch\<close> only logs); \<open>now\<close> is
  \<^verbatim>\<open>new Date().toISOString()\<close>.
\<close>

definition on_message :: "props \<Rightarrow> nat \<Rightarrow> js option \<Rightarrow> string \<Rightarrow> state \<Rightarrow> state" where
  "on_message p i payload now s =
     (case payload of
        None \<Rightarrow> s
      | Some pl \<Rightarrow>
          if opt_prop pl ''type'' = JStr ''mindVectorUpdate'' \<and> truthy (opt_prop pl ''data'') then
            (if \<not> mountedRef s then s
             else accept p (ws_vector (opt_prop pl ''data'') now) ''Live'' s)
          else if opt_prop pl ''type'' = JStr ''ping'' then ws_send i pongMsg s
          else s)"

text \<open>The \<^verbatim>\<open>close\<close> listener: a status text and a reconnection timeout of 5000 ms.\<close>

definition on_close :: "state \<Rightarrow> state" where
  "on_close s =
     s\<lparr>statusMessage := ''WebSocket closed. Falling back to HTTP.'',
       reconnectTimers := reconnectTimers s + 1\<rparr>"

text \<open>The callback of that timeout: \<^verbatim>\<open>if (mountedRef.current) connectWebSocket()\<close>.\<close>

definition on_reconnect_timer :: "props \<Rightarrow> state \<Rightarrow> state" where
  "on_reconnect_timer p s = (if mountedRef s then connectWebSocket p s else s)"

text \<open>The \<^verbatim>\<open>error\<close> listener of socket \<open>i\<close>.\<close>

definition on_error :: "nat \<Rightarrow> state \<Rightarrow> state" where
  "on_error i s = ws_close i (s\<lparr>statusMessage := ''WebSocket error. Using HTTP fallback.''\<rparr>)"

text \<open>\<^verbatim>\<open>fetchApiUrl.replace(/\/$/, "")\<close>: one trailing slash is removed.\<close>

definition strip_slash :: "string \<Rightarrow> string" where
  "strip_slash u = (if u \<noteq> [] \<and> last u = CHR ''/'' then butlast u else u)"

text \<open>
  \<^verbatim>\<open>fetchOnce\<close> up to its first \<^verbatim>\<open>await\<close>: the request is issued and is in flight. The
  request is recorded by the stripped base URL and the wallet address (whose
  \<^verbatim>\<open>encodeURIComponent\<close> form ends the URL).
\<close>

definition fetchOnce :: "props \<Rightarrow> state \<Rightarrow> state" where
  "fetchOnce p s =
     (if \<not> given (fetchApiUrl p) \<or> \<not> given (walletAddress p) then
        s\<lparr>statusMessage := ''No HTTP endpoint configured.''\<rparr>
      else
        s\<lparr>statusMessage := ''Fetching mind vector via HTTP'' @ ellipsis,
          requests := requests s @ [(strip_slash (the_str (fetchApiUrl p)), the_str (walletAddress p))],
          inflight := inflight s + 1\<rparr>)"

text \<open>
  How a request settles: the \<^verbatim>\<open>fetch\<close> promise rejects, or a response arrives with its
  status code and the result of \<^verbatim>\<open>resp.json()\<close> (\<open>None\<close> when that rejects).
\<close>

datatype fetch_outcome = Rejected | Response nat "js option"

fun show_nat :: "nat \<Rightarrow> string" where
  "show_nat n =
     (if n < 10 then [char_of (48 + n)] else show_nat (n div 10) @ [char_of (48 + n mod 10)])"

declare show_nat.simps [simp del]

text \<open>The rest of \<^verbatim>\<open>fetchOnce\<close>, from the first \<^verbatim>\<open>await\<close> on; \<^verbatim>\<open>resp.ok\<close> is a status in 200..299.\<close>

definition fetch_settled ::
  "(string \<Rightarrow> jsnum) \<Rightarrow> props \<Rightarrow> fetch_outcome \<Rightarrow> string \<Rightarrow> state \<Rightarrow> state" where
  "fetch_settled s2n p outcome now s =
     (case outcome of
        Rejected \<Rightarrow> s\<lparr>statusMessage := ''HTTP error''\<rparr>
      | Response code body \<Rightarrow>
          if \<not> (200 \<le> code \<and> code \<le> 299) then
            s\<lparr>statusMessage := ''HTTP fetch failed: '' @ show_nat code\<rparr>
          else
            (case body of
               None \<Rightarrow> s\<lparr>statusMessage := ''HTTP error''\<rparr>
             | Some data \<Rightarrow>
                 (case fetch_vector s2n data now of
                    Inl e \<Rightarrow> s\<lparr>statusMessage := ''HTTP error''\<rparr>
                  | Inr vector \<Rightarrow>
                      if \<not> mountedRef s then s else accept p vector ''HTTP OK'' s)))"

text \<open>The body of the mount effect.\<close>

definition mount :: "props \<Rightarrow> state \<Rightarrow> state" where
  "mount p s0 =
     (let s = s0\<lparr>mountedRef := True\<rparr> in
      if given (websocketUrl p) \<and> given (walletAddress p) then connectWebSocket p s
      else if given (fetchApiUrl p) \<and> given (walletAddress p) then
        (let s1 = fetchOnce p s in
         s1\<lparr>intervals := intervals s1 @ [nextIntervalId s1],
            pollingRef := Some (nextIntervalId s1),
            nextIntervalId := nextIntervalId s1 + 1\<rparr>)
      else
        s\<lparr>statusMessage :=
            ''No data source configured (websocketUrl or fetchApiUrl required).''\<rparr>)"

text \<open>
  Modelled from the spec: the cleanup returned by the mount effect is missing (the source
  ends at the effect's \<^verbatim>\<open>return\<close>). The spec's \<^verbatim>\<open>dispose()\<close> "closes any open push
  connection, cancels any pending poll timer and any pending reconnection timer", and
  cancellation is "checked via a liveness flag", which in the source is \<^verbatim>\<open>mountedRef\<close>.
\<close>

definition dispose :: "state \<Rightarrow> state" where
  "dispose s0 =
     (let s = s0\<lparr>mountedRef := False\<rparr>;
          s1 = (case wsRef s of None \<Rightarrow> s | Some i \<Rightarrow> ws_close i s) in
      s1\<lparr>intervals := (case pollingRef s1 of None \<Rightarrow> intervals s1
                        | Some t \<Rightarrow> removeAll t (intervals s1)),
         reconnectTimers := 0\<rparr>)"

section \<open>The event loop\<close>

text \<open>
  Everything runs as a reaction to one external event at a time. The environment
  delivers an event only where it can occur: \<^verbatim>\<open>open\<close> on a connecting socket,
  \<^verbatim>\<open>message\<close> on an open one, \<^verbatim>\<open>error\<close> and \<^verbatim>\<open>close\<close> on one not yet closed, a
  timeout that is pending, a tick of a running interval, the settling of a request in
  flight. An event outside these conditions does not occur and leaves the state as it is.
\<close>

datatype event =
    Mount
  | Dispose
  | WsOpen nat
  | WsMessage nat "js option" string
  | WsError nat
  | WsClose nat
  | ReconnectTimer
  | PollTimer nat
  | FetchSettled fetch_outcome string

definition step :: "(string \<Rightarrow> jsnum) \<Rightarrow> props \<Rightarrow> state \<Rightarrow> event \<Rightarrow> state" where
  "step s2n p s ev =
     (case ev of
        Mount \<Rightarrow> mount p s
      | Dispose \<Rightarrow> dispose s
      | WsOpen i \<Rightarrow>
          if i < length (sockets s) \<and> sockets s ! i = Connecting
          then on_open p i (s\<lparr>sockets := (sockets s)[i := Open]\<rparr>) else s
      | WsMessage i payload now \<Rightarrow>
          if i < length (sockets s) \<and> sockets s ! i = Open
          then on_message p i payload now s else s
      | WsError i \<Rightarrow>
          if i < length (sockets s) \<and> sockets s ! i \<noteq> Closed then on_error i s else s
      | WsClose i \<Rightarrow>
          if i < length (sockets s) \<and> sockets s ! i \<noteq> Closed
          then on_close (s\<lparr>sockets := (sockets s)[i := Closed]\<rparr>) else s
      | ReconnectTimer \<Rightarrow>
          if 0 < reconnectTimers s
          then on_reconnect_timer p (s\<lparr>reconnectTimers := reconnectTimers s - 1\<rparr>) else s
      | PollTimer t \<Rightarrow> if t \<in> set (intervals s) then fetchOnce p s else s
      | FetchSettled outcome now \<Rightarrow>
          if 0 < inflight s
          then fetch_settled s2n p outcome now (s\<lparr>inflight := inflight s - 1\<rparr>) else s)"

definition run :: "(string \<Rightarrow> jsnum) \<Rightarrow> props \<Rightarrow> state \<Rightarrow> event list \<Rightarrow> state" where
  "run s2n p s evs = foldl (step s2n p) s evs"

text \<open>The states a component can be in: the initial one and what events make of it.\<close>

inductive reachable :: "(string \<Rightarrow> jsnum) \<Rightarrow> props \<Rightarrow> state \<Rightarrow> bool"
  for s2n :: "string \<Rightarrow> jsnum" and p :: props where
  reach_initial: "reachable s2n p initial"
| reach_step: "reachable s2n p s \<Longrightarrow> reachable s2n p (step s2n p s ev)"

section \<open>Runs and examples\<close>

text \<open>The history after the vectors \<open>vs\<close> were accepted one after the other, oldest first.\<close>

definition push_all :: "MindVector list \<Rightarrow> MindVector list \<Rightarrow> MindVector list" where
  "push_all h vs = foldl (\<lambda>h vector. history_push vector h) h vs"

text \<open>Example vectors, told apart by their timestamp.\<close>

definition stamped :: "nat \<Rightarrow> MindVector" where
  "stamped n =
     \<lparr>timestamp = JNum (Fin (of_nat n)), dimensions = JArr [], visualState = JUndefined,
      emoji = JUndefined\<rparr>"

text \<open>Example props: polling only, and both a push and a poll endpoint.\<close>

definition poll_props :: props where
  "poll_props =
     \<lparr>walletAddress = Some ''w1'', websocketUrl = None, fetchApiUrl = Some ''https://x/mv/'',
      pollingIntervalMs = 15000, has_onUpdate = True, websocketUrlValid = True\<rparr>"

definition push_props :: props where
  "push_props =
     \<lparr>walletAddress = Some ''w1'', websocketUrl = Some ''wss://x/ws'',
      fetchApiUrl = Some ''https://x/mv'', pollingIntervalMs = 15000, has_onUpdate = True,
      websocketUrlValid = True\<rparr>"

text \<open>Example messages: a keep-alive, and an update whose data has no fields.\<close>

definition ping :: js where
  "ping = JObj [(''type'', JStr ''ping'')]"

definition update_msg :: js where
  "update_msg = JObj [(''type'', JStr ''mindVectorUpdate''), (''data'', JObj [])]"

text \<open>Every message sent so far left on a socket that had opened.\<close>

definition sent_after_open :: "state \<Rightarrow> bool" where
  "sent_after_open s =
     (\<forall>m \<in> set (sent s). fst m < length (sockets s) \<and> sockets s ! fst m \<noteq> Connecting)"

text \<open>Example poll body in the legacy shape.\<close>

definition legacy_body :: js where
  "legacy_body = JObj [(''vector'', JArr [JNum (Fin 3), JNum (Fin 7)])]"

text \<open>
  Example update with a duplicate name and an infinite value, and a vector with the
  dimensions \<^verbatim>\<open>[{name: "b", value: 1}, {name: "a", value: "x"}]\<close>.
\<close>

definition dup_msg :: js where
  "dup_msg =
     JObj [(''type'', JStr ''mindVectorUpdate''),
           (''data'', JObj [(''dimensions'',
              JArr [JObj [(''name'', JStr ''a''), (''value'', JNum PosInf)],
                    JObj [(''name'', JStr ''a''), (''value'', JStr ''12'')]])])]"

definition scenario_vector :: MindVector where
  "scenario_vector =
     \<lparr>timestamp = JStr ''t'',
      dimensions = JArr [JObj [(''name'', JStr ''b''), (''value'', JNum (Fin 1))],
                         JObj [(''name'', JStr ''a''), (''value'', JStr ''x'')]],
      visualState = JUndefined, emoji = JUndefined\<rparr>"

section \<open>What one event can do to the vectors\<close>

lemmas handler_defs = mount_def dispose_def on_open_def on_message_def on_error_def on_close_def
  on_reconnect_timer_def fetchOnce_def fetch_settled_def connectWebSocket_def ws_send_def
  ws_close_def

lemmas eval_defs = run_def step_def handler_defs accept_def history_push_def initial_def
  push_props_def poll_props_def given_def the_str_def Let_def subscribeMsg_def pongMsg_def
  strip_slash_def ping_def update_msg_def legacy_body_def dup_msg_def scenario_vector_def
  opt_prop_def js_or_def js_coalesce_def ws_vector_def fetch_vector_def fetch_dimensions_def
  vector_entry_def normalizeToRadarData_def radar_of_def num_or_zero_def is_finite_def
  Number_def StringToNumber_digits_def is_digit_def digit_val_def

lemma show_nat_500: "show_nat 500 = ''500''"
  by code_simp

text \<open>
  An event either leaves the current vector, the history and the callback log alone, or
  it is an accepted update on a mounted component: one vector becomes current, is pushed
  on the history and is passed to the callback.
\<close>

lemma step_effect:
  "(current (step s2n p s ev) = current s \<and> history (step s2n p s ev) = history s
      \<and> updates (step s2n p s ev) = updates s)
   \<or> (\<exists>vector. mountedRef s \<and> current (step s2n p s ev) = Some vector
         \<and> history (step s2n p s ev) = history_push vector (history s)
         \<and> updates (step s2n p s ev) = (if has_onUpdate p then updates s @ [vector] else updates s))"
  by (cases ev)
    (auto simp: step_def handler_defs accept_def Let_def
      split: option.splits fetch_outcome.splits sum.splits)

section \<open>The history buffer\<close>

lemma history_push_length: "length (history_push v h) \<le> 50"
  by (simp add: history_push_def)

lemma history_push_front: "history_push v h = v # take 49 h"
  by (simp add: history_push_def take_Cons')

lemma take_50_push: "take 50 (v # take 50 xs) = take 50 (v # xs)"
  by (simp add: take_Cons')

lemma push_all_snoc: "push_all h (vs @ [v]) = history_push v (push_all h vs)"
  by (simp add: push_all_def)

lemma push_all_take: "length h \<le> 50 \<Longrightarrow> push_all h vs = take 50 (rev vs @ h)"
proof (induction vs rule: rev_induct)
  case Nil
  then show ?case by (simp add: push_all_def)
next
  case (snoc v vs)
  then have "push_all h (vs @ [v]) = take 50 (v # take 50 (rev vs @ h))"
    by (simp only: push_all_snoc history_push_def)
  also have "\<dots> = take 50 (v # rev vs @ h)"
    by (rule take_50_push)
  finally show ?case by simp
qed

lemma reachable_history_length: "reachable s2n p s \<Longrightarrow> length (history s) \<le> 50"
proof (induction rule: reachable.induct)
  case reach_initial
  show ?case by (simp add: initial_def)
next
  case (reach_step s ev)
  from step_effect [of s2n p s ev] reach_step.IH show ?case
    by (auto simp: history_push_length)
qed

lemma push_all_51:
  assumes "length vs = 51"
  shows "push_all [] vs = rev (tl vs)"
proof -
  from assms obtain v ws where vs: "vs = v # ws" and ws: "length ws = 50"
    by (cases vs) auto
  have "push_all [] vs = take 50 (rev ws @ [v])"
    by (simp add: push_all_take vs)
  also have "\<dots> = rev ws" using ws by simp
  finally show ?thesis by (simp add: vs)
qed

text \<open>
  C2. In every state the component can reach, the history holds at most 50 vectors. An
  accepted vector goes to the front and the history is cut to its first 50 entries, so
  after the vectors \<open>vs\<close> were accepted the history is the last 50 of them, newest first.
  After 51 of them it is exactly the last 50: the entry appended first is gone (and if
  no later vector equals it, no entry of the history does).
\<close>

theorem history_bounded_newest_first:
  "(reachable s2n p s \<longrightarrow> length (history s) \<le> 50)
   \<and> history (accept p vector msg s) = vector # take 49 (history s)
   \<and> length (push_all [] vs) \<le> 50
   \<and> push_all [] vs = take 50 (rev vs)
   \<and> (length vs = 51 \<longrightarrow>
        push_all [] vs = rev (tl vs) \<and> (hd vs \<notin> set (tl vs) \<longrightarrow> hd vs \<notin> set (push_all [] vs)))"
proof -
  have a: "reachable s2n p s \<longrightarrow> length (history s) \<le> 50"
    by (simp add: reachable_history_length)
  have b: "history (accept p vector msg s) = vector # take 49 (history s)"
    by (simp add: accept_def history_push_front)
  have c: "push_all [] vs = take 50 (rev vs)"
    using push_all_take [of "[]" vs] by simp
  have d: "length (push_all [] vs) \<le> 50"
    by (simp add: c)
  have e: "length vs = 51 \<longrightarrow>
        push_all [] vs = rev (tl vs) \<and> (hd vs \<notin> set (tl vs) \<longrightarrow> hd vs \<notin> set (push_all [] vs))"
    by (simp add: push_all_51)
  from a b c d e show ?thesis by blast
qed

lemma stamped_inj: "stamped m = stamped n \<longleftrightarrow> m = n"
  by (simp add: stamped_def)

lemma hd_stamped: "hd (map stamped [0..<51]) = stamped 0"
  by (simp add: upt_conv_Cons)

lemma tl_stamped: "tl (map stamped [0..<51]) = map stamped [1..<51]"
  by (simp add: upt_conv_Cons)

theorem history_bounded_newest_first_witness:
  "reachable StringToNumber_digits push_props initial
   \<and> length (history initial) \<le> 50
   \<and> length (map stamped [0..<51]) = 51
   \<and> stamped 0 \<notin> set (map stamped [1..<51])
   \<and> push_all [] (map stamped [0..<51]) = rev (map stamped [1..<51])
   \<and> stamped 0 \<notin> set (push_all [] (map stamped [0..<51]))"
proof -
  note t = history_bounded_newest_first [of StringToNumber_digits push_props initial
      "stamped 0" "''Live''" "map stamped [0..<51]"]
  have r: "reachable StringToNumber_digits push_props initial"
    by (rule reach_initial)
  have l: "length (map stamped [0..<51]) = 51"
    by simp
  have n: "stamped 0 \<notin> set (map stamped [1..<51])"
    by (auto simp: stamped_inj)
  from t r have b: "length (history initial) \<le> 50"
    by blast
  from t l have "push_all [] (map stamped [0..<51]) = rev (tl (map stamped [0..<51]))
      \<and> (hd (map stamped [0..<51]) \<notin> set (tl (map stamped [0..<51]))
           \<longrightarrow> hd (map stamped [0..<51]) \<notin> set (push_all [] (map stamped [0..<51])))"
    by blast
  then have "push_all [] (map stamped [0..<51]) = rev (map stamped [1..<51])
      \<and> (stamped 0 \<notin> set (map stamped [1..<51])
           \<longrightarrow> stamped 0 \<notin> set (push_all [] (map stamped [0..<51])))"
    unfolding hd_stamped tl_stamped .
  with r l n b show ?thesis by blast
qed

section \<open>Runs reach reachable states\<close>

lemma run_Nil: "run s2n p s [] = s"
  by (simp add: run_def)

lemma run_Cons: "run s2n p s (ev # evs) = run s2n p (step s2n p s ev) evs"
  by (simp add: run_def)

lemma reachable_run: "reachable s2n p s \<Longrightarrow> reachable s2n p (run s2n p s evs)"
  by (induction evs arbitrary: s) (auto simp: run_Nil run_Cons intro: reach_step)

section \<open>The current vector and the history\<close>

lemma reachable_current_head:
  "reachable s2n p s \<Longrightarrow>
     (history s \<noteq> [] \<longrightarrow> current s = Some (hd (history s))) \<and> (history s = [] \<longleftrightarrow> current s = None)"
proof (induction rule: reachable.induct)
  case reach_initial
  show ?case by (simp add: initial_def)
next
  case (reach_step s ev)
  from step_effect [of s2n p s ev] reach_step.IH show ?case
    by (auto simp: history_push_front)
qed

text \<open>
  C10. In every state the component can reach, a non-empty history has the current
  vector as its first entry (and the history is empty exactly when there is no current
  vector); the accepted-update block of either path leaves the accepted vector both as
  the current one and at the head of the history.
\<close>

theorem current_is_history_head:
  "(reachable s2n p s \<longrightarrow>
      (history s \<noteq> [] \<longrightarrow> current s = Some (hd (history s))) \<and> (history s = [] \<longleftrightarrow> current s = None))
   \<and> current (accept p vector msg s) = Some (hd (history (accept p vector msg s)))
   \<and> hd (history (accept p vector msg s)) = vector"
  using reachable_current_head [of s2n p s]
  by (simp add: accept_def history_push_front)

theorem current_is_history_head_witness:
  "reachable StringToNumber_digits push_props
     (run StringToNumber_digits push_props initial [Mount, WsOpen 0, WsMessage 0 (Some update_msg) ''t''])
   \<and> history (run StringToNumber_digits push_props initial
        [Mount, WsOpen 0, WsMessage 0 (Some update_msg) ''t'']) \<noteq> []
   \<and> current (run StringToNumber_digits push_props initial
        [Mount, WsOpen 0, WsMessage 0 (Some update_msg) ''t'']) =
      Some (hd (history (run StringToNumber_digits push_props initial
        [Mount, WsOpen 0, WsMessage 0 (Some update_msg) ''t''])))"
proof -
  let ?s = "run StringToNumber_digits push_props initial
        [Mount, WsOpen 0, WsMessage 0 (Some update_msg) ''t'']"
  have r: "reachable StringToNumber_digits push_props ?s"
    by (rule reachable_run [OF reach_initial])
  have n: "history ?s \<noteq> []"
    by (simp add: eval_defs)
  from current_is_history_head [of StringToNumber_digits push_props ?s "stamped 0" "''Live''"] r n
  show ?thesis by blast
qed

section \<open>Keep-alive\<close>

text \<open>
  C9. A message of type \<^verbatim>\<open>ping\<close> (in particular \<^verbatim>\<open>{"type":"ping"}\<close> itself) arriving on an
  open socket is answered with exactly \<^verbatim>\<open>{"type":"pong"}\<close> on that socket, as one more
  outbound message, and changes nothing else: the socket stays open, the callback is not
  called, and the current vector, the history and the status text are what they were.
\<close>

theorem ping_answered_with_pong:
  assumes "i < length (sockets s)" and "sockets s ! i = Open"
    and "opt_prop pl ''type'' = JStr ''ping''"
  shows "step s2n p s (WsMessage i (Some pl) now) =
       s\<lparr>sent := sent s @ [(i, JObj [(''type'', JStr ''pong'')])]\<rparr>
     \<and> sent (step s2n p s (WsMessage i (Some pl) now)) =
         sent s @ [(i, JObj [(''type'', JStr ''pong'')])]
     \<and> sockets (step s2n p s (WsMessage i (Some pl) now)) = sockets s
     \<and> sockets (step s2n p s (WsMessage i (Some pl) now)) ! i = Open
     \<and> updates (step s2n p s (WsMessage i (Some pl) now)) = updates s
     \<and> current (step s2n p s (WsMessage i (Some pl) now)) = current s
     \<and> history (step s2n p s (WsMessage i (Some pl) now)) = history s
     \<and> statusMessage (step s2n p s (WsMessage i (Some pl) now)) = statusMessage s"
proof -
  have "step s2n p s (WsMessage i (Some pl) now) =
      s\<lparr>sent := sent s @ [(i, JObj [(''type'', JStr ''pong'')])]\<rparr>"
    using assms by (simp add: step_def on_message_def ws_send_def pongMsg_def)
  then show ?thesis using assms by simp
qed

theorem ping_answered_with_pong_witness:
  "0 < length (sockets (run StringToNumber_digits push_props initial [Mount, WsOpen 0]))
   \<and> sockets (run StringToNumber_digits push_props initial [Mount, WsOpen 0]) ! 0 = Open
   \<and> opt_prop (JObj [(''type'', JStr ''ping'')]) ''type'' = JStr ''ping''
   \<and> sent (step StringToNumber_digits push_props
        (run StringToNumber_digits push_props initial [Mount, WsOpen 0])
        (WsMessage 0 (Some (JObj [(''type'', JStr ''ping'')])) ''t'')) =
      [(0, JObj [(''type'', JStr ''subscribe''), (''topic'', JStr ''mindVector''),
                 (''wallet'', JStr ''w1'')]),
       (0, JObj [(''type'', JStr ''pong'')])]
   \<and> sockets (step StringToNumber_digits push_props
        (run StringToNumber_digits push_props initial [Mount, WsOpen 0])
        (WsMessage 0 (Some (JObj [(''type'', JStr ''ping'')])) ''t'')) = [Open]
   \<and> updates (step StringToNumber_digits push_props
        (run StringToNumber_digits push_props initial [Mount, WsOpen 0])
        (WsMessage 0 (Some (JObj [(''type'', JStr ''ping'')])) ''t'')) = []"
proof -
  let ?s = "run StringToNumber_digits push_props initial [Mount, WsOpen 0]"
  let ?pl = "JObj [(''type'', JStr ''ping'')]"
  have a: "0 < length (sockets ?s)" by (simp add: eval_defs)
  have b: "sockets ?s ! 0 = Open" by (simp add: eval_defs)
  have c: "opt_prop ?pl ''type'' = JStr ''ping''" by (simp add: eval_defs)
  have d: "sent ?s =
      [(0, JObj [(''type'', JStr ''subscribe''), (''topic'', JStr ''mindVector''),
                 (''wallet'', JStr ''w1'')])]"
    by (simp add: eval_defs)
  have e: "sockets ?s = [Open]" by (simp add: eval_defs)
  have f: "updates ?s = []" by (simp add: eval_defs)
  from ping_answered_with_pong [OF a b c, of StringToNumber_digits push_props "''t''"]
  have "sent (step StringToNumber_digits push_props ?s (WsMessage 0 (Some ?pl) ''t'')) =
        sent ?s @ [(0, JObj [(''type'', JStr ''pong'')])]
      \<and> sockets (step StringToNumber_digits push_props ?s (WsMessage 0 (Some ?pl) ''t'')) = sockets ?s
      \<and> updates (step StringToNumber_digits push_props ?s (WsMessage 0 (Some ?pl) ''t'')) = updates ?s"
    by blast
  with a b c d e f show ?thesis by simp
qed

section \<open>The subscribe handshake\<close>

lemma reachable_sent_after_open: "reachable s2n p s \<Longrightarrow> sent_after_open s"
proof (induction rule: reachable.induct)
  case reach_initial
  show ?case by (simp add: initial_def sent_after_open_def)
next
  case (reach_step s ev)
  then show ?case
    by (cases ev)
      (auto simp: sent_after_open_def step_def handler_defs accept_def Let_def nth_append
        nth_list_update split: option.splits fetch_outcome.splits sum.splits if_splits)
qed

text \<open>
  C8 as stated fails: the message sent on open has the topic \<^verbatim>\<open>mindVector\<close> and carries
  the identifier under the key \<^verbatim>\<open>wallet\<close>, not \<^verbatim>\<open>stateVector\<close> and \<^verbatim>\<open>subject\<close>.
\<close>

theorem subscribe_message_counterexample:
  "sent (run StringToNumber_digits push_props initial [Mount, WsOpen 0]) =
     [(0, JObj [(''type'', JStr ''subscribe''), (''topic'', JStr ''mindVector''),
                (''wallet'', JStr ''w1'')])]
   \<and> sent (run StringToNumber_digits push_props initial [Mount, WsOpen 0]) \<noteq>
     [(0, JObj [(''type'', JStr ''subscribe''), (''topic'', JStr ''stateVector''),
                (''subject'', JStr ''w1'')])]"
  by (simp add: eval_defs)

lemma open_sends_subscribe:
  assumes "i < length (sockets s)" and "sockets s ! i = Connecting"
  shows "sent (step s2n p s (WsOpen i)) = sent s @ [(i, subscribeMsg p)]"
  using assms by (simp add: step_def on_open_def ws_send_def)

text \<open>
  C8, amended. When a socket of a reachable state opens, the component sends exactly
  \<^verbatim>\<open>{"type":"subscribe","topic":"mindVector","wallet":<walletAddress>}\<close> on it, and that
  message is the first (so far the only) one sent on that socket.
\<close>

theorem subscribe_first_on_open:
  assumes "reachable s2n p s" and "i < length (sockets s)" and "sockets s ! i = Connecting"
  shows "sent (step s2n p s (WsOpen i)) = sent s @ [(i, subscribeMsg p)]
     \<and> filter (\<lambda>m. fst m = i) (sent (step s2n p s (WsOpen i))) = [(i, subscribeMsg p)]
     \<and> subscribeMsg p =
         JObj [(''type'', JStr ''subscribe''), (''topic'', JStr ''mindVector''),
               (''wallet'', JStr (the_str (walletAddress p)))]"
proof -
  from reachable_sent_after_open [OF assms(1)] assms(3)
  have "\<forall>m \<in> set (sent s). fst m \<noteq> i"
    by (auto simp: sent_after_open_def)
  then have none: "filter (\<lambda>m. fst m = i) (sent s) = []"
    by (simp add: filter_empty_conv)
  have snd: "sent (step s2n p s (WsOpen i)) = sent s @ [(i, subscribeMsg p)]"
    by (rule open_sends_subscribe [OF assms(2,3)])
  from none snd show ?thesis
    by (simp add: subscribeMsg_def)
qed

theorem subscribe_first_on_open_witness:
  "reachable StringToNumber_digits push_props (run StringToNumber_digits push_props initial [Mount])
   \<and> 0 < length (sockets (run StringToNumber_digits push_props initial [Mount]))
   \<and> sockets (run StringToNumber_digits push_props initial [Mount]) ! 0 = Connecting
   \<and> filter (\<lambda>m. fst m = 0)
        (sent (step StringToNumber_digits push_props
           (run StringToNumber_digits push_props initial [Mount]) (WsOpen 0))) =
      [(0, subscribeMsg push_props)]"
proof -
  let ?s = "run StringToNumber_digits push_props initial [Mount]"
  have r: "reachable StringToNumber_digits push_props ?s"
    by (rule reachable_run [OF reach_initial])
  have a: "0 < length (sockets ?s)" by (simp add: eval_defs)
  have b: "sockets ?s ! 0 = Connecting" by (simp add: eval_defs)
  from subscribe_first_on_open [OF r a b] r a b show ?thesis by blast
qed

section \<open>Polling\<close>

text \<open>
  C7 as stated fails: with a poll endpoint only, the request issued at mount is still in
  flight when the interval ticks, and the tick issues a second one.
\<close>

theorem poll_overlap_counterexample:
  "inflight (run StringToNumber_digits poll_props initial [Mount, PollTimer 0]) = 2"
  by (simp add: eval_defs)

text \<open>
  C7, amended. With a poll endpoint and a wallet address, every tick of a running
  interval issues one more request whatever the number already in flight, the mount of
  a component without a push endpoint issues one and starts the interval, and each
  settling takes one request out of flight: the requests in flight are those issued and
  not yet settled, with no bound of one.
\<close>

theorem poll_tick_issues_request:
  assumes "given (fetchApiUrl p)" and "given (walletAddress p)"
  shows "(t \<in> set (intervals s) \<longrightarrow>
            inflight (step s2n p s (PollTimer t)) = inflight s + 1
          \<and> requests (step s2n p s (PollTimer t)) =
              requests s @ [(strip_slash (the_str (fetchApiUrl p)), the_str (walletAddress p))])
     \<and> (\<not> given (websocketUrl p) \<longrightarrow>
            inflight (step s2n p s Mount) = inflight s + 1
          \<and> intervals (step s2n p s Mount) = intervals s @ [nextIntervalId s])
     \<and> (0 < inflight s \<longrightarrow> inflight (step s2n p s (FetchSettled outcome now)) = inflight s - 1)"
proof -
  have a: "t \<in> set (intervals s) \<longrightarrow>
            inflight (step s2n p s (PollTimer t)) = inflight s + 1
          \<and> requests (step s2n p s (PollTimer t)) =
              requests s @ [(strip_slash (the_str (fetchApiUrl p)), the_str (walletAddress p))]"
    using assms by (simp add: step_def fetchOnce_def)
  have b: "\<not> given (websocketUrl p) \<longrightarrow>
            inflight (step s2n p s Mount) = inflight s + 1
          \<and> intervals (step s2n p s Mount) = intervals s @ [nextIntervalId s]"
    using assms by (simp add: step_def mount_def fetchOnce_def Let_def)
  have c: "0 < inflight s \<longrightarrow> inflight (step s2n p s (FetchSettled outcome now)) = inflight s - 1"
    by (simp add: step_def fetch_settled_def accept_def
        split: fetch_outcome.splits option.splits sum.splits)
  from a b c show ?thesis by blast
qed

theorem poll_tick_issues_request_witness:
  "given (fetchApiUrl poll_props) \<and> given (walletAddress poll_props)
   \<and> \<not> given (websocketUrl poll_props)
   \<and> inflight (step StringToNumber_digits poll_props initial Mount) = 1
   \<and> 0 \<in> set (intervals (run StringToNumber_digits poll_props initial [Mount]))
   \<and> 0 < inflight (run StringToNumber_digits poll_props initial [Mount])
   \<and> inflight (step StringToNumber_digits poll_props
        (run StringToNumber_digits poll_props initial [Mount]) (PollTimer 0)) = 2
   \<and> inflight (step StringToNumber_digits poll_props
        (run StringToNumber_digits poll_props initial [Mount]) (FetchSettled Rejected ''t'')) = 0"
proof -
  let ?s = "run StringToNumber_digits poll_props initial [Mount]"
  have a: "given (fetchApiUrl poll_props)" by (simp add: eval_defs)
  have b: "given (walletAddress poll_props)" by (simp add: eval_defs)
  have w: "\<not> given (websocketUrl poll_props)" by (simp add: eval_defs)
  have c: "0 \<in> set (intervals ?s)" by (simp add: eval_defs)
  have d: "inflight ?s = 1" by (simp add: eval_defs)
  have e: "inflight initial = 0" by (simp add: eval_defs)
  from poll_tick_issues_request [OF a b, of 0 ?s StringToNumber_digits Rejected "''t''"] c d
  have t: "inflight (step StringToNumber_digits poll_props ?s (PollTimer 0)) = 2
      \<and> inflight (step StringToNumber_digits poll_props ?s (FetchSettled Rejected ''t'')) = 0"
    by simp
  from poll_tick_issues_request [OF a b, of 0 initial StringToNumber_digits Rejected "''t''"] w e
  have m: "inflight (step StringToNumber_digits poll_props initial Mount) = 1"
    by simp
  from a b w c d t m show ?thesis by simp
qed

section \<open>The legacy numeric array\<close>

text \<open>
  C6 as stated fails: for the body \<^verbatim>\<open>{"vector":[3,7]}\<close> both dimensions are named
  \<^verbatim>\<open>dim\<close> and have the value 0, not \<^verbatim>\<open>dim0\<close>, \<^verbatim>\<open>dim1\<close> with 3 and 7.
\<close>



theorem legacy_vector_counterexample:
  "map_option dimensions (current (run StringToNumber_digits poll_props initial
      [Mount, FetchSettled (Response 200 (Some legacy_body)) ''t''])) =
     Some (JArr [JObj [(''name'', JStr ''dim''), (''value'', JNum (Fin 0))],
                 JObj [(''name'', JStr ''dim''), (''value'', JNum (Fin 0))]])
   \<and> map_option dimensions (current (run StringToNumber_digits poll_props initial
      [Mount, FetchSettled (Response 200 (Some legacy_body)) ''t''])) \<noteq>
     Some (JArr [JObj [(''name'', JStr ''dim0''), (''value'', JNum (Fin 3))],
                 JObj [(''name'', JStr ''dim1''), (''value'', JNum (Fin 7))]])"
  by (simp add: eval_defs)

lemma vector_entry_number:
  "vector_entry s2n (JNum n) = Inr (JObj [(''name'', JStr ''dim''), (''value'', JNum (Fin 0))])"
  by (simp add: vector_entry_def opt_prop_def js_or_def js_coalesce_def Number_def)

lemma map_entries_numbers:
  "map_exn (vector_entry s2n) (map JNum ns) =
     Inr (map (\<lambda>n. JObj [(''name'', JStr ''dim''), (''value'', JNum (Fin 0))]) ns)"
  by (induction ns) (simp_all add: vector_entry_number)

lemma as_dimensions_dim:
  "as_dimensions (JArr (map (\<lambda>n. JObj [(''name'', JStr ''dim''), (''value'', JNum (Fin 0))]) ns)) =
     Some (map (\<lambda>n. \<lparr>dim_name = ''dim'', dim_value = JNum (Fin 0)\<rparr>) ns)"
  by (simp add: opt_prop_def list_all_iff)

text \<open>
  C6, amended. For a poll body without a \<^verbatim>\<open>dimensions\<close> field whose \<^verbatim>\<open>vector\<close> field is an
  array of raw numbers, the vector built has one dimension per number, each named
  \<^verbatim>\<open>dim\<close> with the value 0: the name and the value are read from the element's \<^verbatim>\<open>name\<close>,
  \<^verbatim>\<open>label\<close> and \<^verbatim>\<open>value\<close> properties, which a number does not have.
\<close>

theorem legacy_vector_all_dim_zero:
  assumes "opt_prop data ''dimensions'' = JUndefined"
    and "opt_prop data ''vector'' = JArr (map JNum ns)"
  shows "fetch_vector s2n data now =
       Inr \<lparr>timestamp = js_or (opt_prop data ''timestamp'') (JStr now),
            dimensions = JArr (map (\<lambda>n. JObj [(''name'', JStr ''dim''), (''value'', JNum (Fin 0))]) ns),
            visualState = opt_prop data ''visualState'',
            emoji = opt_prop data ''emoji''\<rparr>
     \<and> as_dimensions (JArr (map (\<lambda>n. JObj [(''name'', JStr ''dim''), (''value'', JNum (Fin 0))]) ns)) =
         Some (map (\<lambda>n. \<lparr>dim_name = ''dim'', dim_value = JNum (Fin 0)\<rparr>) ns)"
proof -
  from assms(2) obtain kvs where d: "data = JObj kvs"
    by (cases data) (simp_all add: opt_prop_def)
  have fd: "fetch_dimensions s2n data =
      Inr (JArr (map (\<lambda>n. JObj [(''name'', JStr ''dim''), (''value'', JNum (Fin 0))]) ns))"
    using assms by (simp add: fetch_dimensions_def map_entries_numbers)
  have "get_prop data ''timestamp'' = Some (opt_prop data ''timestamp'')"
    by (simp add: d opt_prop_def)
  with fd show ?thesis
    by (simp add: fetch_vector_def as_dimensions_dim del: as_dimensions.simps)
qed

theorem legacy_vector_all_dim_zero_witness:
  "opt_prop legacy_body ''dimensions'' = JUndefined
   \<and> opt_prop legacy_body ''vector'' = JArr (map JNum [Fin 3, Fin 7])
   \<and> fetch_vector StringToNumber_digits legacy_body ''t'' =
       Inr \<lparr>timestamp = JStr ''t'',
            dimensions = JArr [JObj [(''name'', JStr ''dim''), (''value'', JNum (Fin 0))],
                               JObj [(''name'', JStr ''dim''), (''value'', JNum (Fin 0))]],
            visualState = JUndefined, emoji = JUndefined\<rparr>"
proof -
  have a: "opt_prop legacy_body ''dimensions'' = JUndefined" by (simp add: eval_defs)
  have b: "opt_prop legacy_body ''vector'' = JArr (map JNum [Fin 3, Fin 7])" by (simp add: eval_defs)
  have c: "opt_prop legacy_body ''timestamp'' = JUndefined" by (simp add: eval_defs)
  have d: "opt_prop legacy_body ''visualState'' = JUndefined" by (simp add: eval_defs)
  have e: "opt_prop legacy_body ''emoji'' = JUndefined" by (simp add: eval_defs)
  from legacy_vector_all_dim_zero [OF a b, of StringToNumber_digits "''t''"] a b
  show ?thesis by (simp add: c d e js_or_def)
qed

section \<open>Which messages are dropped\<close>

text \<open>
  C5 as stated fails: the update \<^verbatim>\<open>{"type":"mindVectorUpdate","data":{}}\<close> yields zero
  dimensions and is accepted all the same: the vector becomes current, enters the
  history and is passed to the callback.
\<close>

theorem empty_update_counterexample:
  "as_dimensions (dimensions (ws_vector (opt_prop update_msg ''data'') ''t'')) = Some []
   \<and> current (run StringToNumber_digits push_props initial
        [Mount, WsOpen 0, WsMessage 0 (Some update_msg) ''t'']) =
      Some (ws_vector (opt_prop update_msg ''data'') ''t'')
   \<and> history (run StringToNumber_digits push_props initial
        [Mount, WsOpen 0, WsMessage 0 (Some update_msg) ''t'']) =
      [ws_vector (opt_prop update_msg ''data'') ''t'']
   \<and> updates (run StringToNumber_digits push_props initial
        [Mount, WsOpen 0, WsMessage 0 (Some update_msg) ''t'']) =
      [ws_vector (opt_prop update_msg ''data'') ''t'']"
  by (simp add: eval_defs)

text \<open>
  C5, amended. A push message that does not parse, whose type is not
  \<^verbatim>\<open>mindVectorUpdate\<close>, or whose \<^verbatim>\<open>data\<close> is absent or falsy is ignored: no vector is stored,
  no history entry is appended, the callback is not called and the status text stays. A
  poll body that does not parse or is \<^verbatim>\<open>null\<close> stores nothing, appends nothing and
  calls nothing either. An update of a mounted component with a truthy \<^verbatim>\<open>data\<close> is
  accepted whatever \<^verbatim>\<open>data\<close> holds: with no dimensions in it, the stored vector has the
  empty list of dimensions.
\<close>

theorem ignored_and_accepted_messages:
  "((\<forall>pl. payload = Some pl \<longrightarrow>
        \<not> (opt_prop pl ''type'' = JStr ''mindVectorUpdate'' \<and> truthy (opt_prop pl ''data''))) \<longrightarrow>
      current (step s2n p s (WsMessage i payload now)) = current s
    \<and> history (step s2n p s (WsMessage i payload now)) = history s
    \<and> updates (step s2n p s (WsMessage i payload now)) = updates s
    \<and> statusMessage (step s2n p s (WsMessage i payload now)) = statusMessage s)
   \<and> (i < length (sockets s) \<and> sockets s ! i = Open \<and> mountedRef s
        \<and> opt_prop pl ''type'' = JStr ''mindVectorUpdate'' \<and> truthy (opt_prop pl ''data'') \<longrightarrow>
      current (step s2n p s (WsMessage i (Some pl) now)) = Some (ws_vector (opt_prop pl ''data'') now)
    \<and> history (step s2n p s (WsMessage i (Some pl) now)) =
        history_push (ws_vector (opt_prop pl ''data'') now) (history s)
    \<and> updates (step s2n p s (WsMessage i (Some pl) now)) =
        (if has_onUpdate p then updates s @ [ws_vector (opt_prop pl ''data'') now] else updates s))
   \<and> ((body = None \<or> body = Some JNull) \<longrightarrow>
      current (step s2n p s (FetchSettled (Response code body) now)) = current s
    \<and> history (step s2n p s (FetchSettled (Response code body) now)) = history s
    \<and> updates (step s2n p s (FetchSettled (Response code body) now)) = updates s)"
proof -
  have a: "(\<forall>pl. payload = Some pl \<longrightarrow>
        \<not> (opt_prop pl ''type'' = JStr ''mindVectorUpdate'' \<and> truthy (opt_prop pl ''data''))) \<longrightarrow>
      current (step s2n p s (WsMessage i payload now)) = current s
    \<and> history (step s2n p s (WsMessage i payload now)) = history s
    \<and> updates (step s2n p s (WsMessage i payload now)) = updates s
    \<and> statusMessage (step s2n p s (WsMessage i payload now)) = statusMessage s"
    by (cases payload) (auto simp: step_def on_message_def ws_send_def)
  have b: "i < length (sockets s) \<and> sockets s ! i = Open \<and> mountedRef s
        \<and> opt_prop pl ''type'' = JStr ''mindVectorUpdate'' \<and> truthy (opt_prop pl ''data'') \<longrightarrow>
      current (step s2n p s (WsMessage i (Some pl) now)) = Some (ws_vector (opt_prop pl ''data'') now)
    \<and> history (step s2n p s (WsMessage i (Some pl) now)) =
        history_push (ws_vector (opt_prop pl ''data'') now) (history s)
    \<and> updates (step s2n p s (WsMessage i (Some pl) now)) =
        (if has_onUpdate p then updates s @ [ws_vector (opt_prop pl ''data'') now] else updates s)"
    by (simp add: step_def on_message_def accept_def)
  have c: "(body = None \<or> body = Some JNull) \<longrightarrow>
      current (step s2n p s (FetchSettled (Response code body) now)) = current s
    \<and> history (step s2n p s (FetchSettled (Response code body) now)) = history s
    \<and> updates (step s2n p s (FetchSettled (Response code body) now)) = updates s"
    by (auto simp: step_def fetch_settled_def fetch_vector_def)
  from a b c show ?thesis by blast
qed

theorem ignored_and_accepted_messages_witness:
  "opt_prop ping ''type'' \<noteq> JStr ''mindVectorUpdate''
   \<and> history (step StringToNumber_digits push_props
        (run StringToNumber_digits push_props initial [Mount, WsOpen 0])
        (WsMessage 0 (Some ping) ''t'')) = []
   \<and> 0 < length (sockets (run StringToNumber_digits push_props initial [Mount, WsOpen 0]))
   \<and> sockets (run StringToNumber_digits push_props initial [Mount, WsOpen 0]) ! 0 = Open
   \<and> mountedRef (run StringToNumber_digits push_props initial [Mount, WsOpen 0])
   \<and> opt_prop update_msg ''type'' = JStr ''mindVectorUpdate''
   \<and> truthy (opt_prop update_msg ''data'')
   \<and> history (step StringToNumber_digits push_props
        (run StringToNumber_digits push_props initial [Mount, WsOpen 0])
        (WsMessage 0 (Some update_msg) ''t'')) = [ws_vector (opt_prop update_msg ''data'') ''t'']
   \<and> 0 < inflight (run StringToNumber_digits poll_props initial [Mount])
   \<and> history (step StringToNumber_digits poll_props
        (run StringToNumber_digits poll_props initial [Mount])
        (FetchSettled (Response 200 (Some JNull)) ''t'')) = []
   \<and> statusMessage (step StringToNumber_digits poll_props
        (run StringToNumber_digits poll_props initial [Mount])
        (FetchSettled (Response 200 (Some JNull)) ''t'')) = ''HTTP error''"
proof -
  let ?s = "run StringToNumber_digits push_props initial [Mount, WsOpen 0]"
  let ?q = "run StringToNumber_digits poll_props initial [Mount]"
  note t = ignored_and_accepted_messages [of "Some ping" StringToNumber_digits push_props ?s 0 "''t''"
      update_msg "Some JNull" 200]
  note u = ignored_and_accepted_messages [of "Some ping" StringToNumber_digits poll_props ?q 0 "''t''"
      update_msg "Some JNull" 200]
  have a: "opt_prop ping ''type'' \<noteq> JStr ''mindVectorUpdate''" by (simp add: eval_defs)
  have b: "0 < length (sockets ?s)" by (simp add: eval_defs)
  have c: "sockets ?s ! 0 = Open" by (simp add: eval_defs)
  have d: "mountedRef ?s" by (simp add: eval_defs)
  have e: "opt_prop update_msg ''type'' = JStr ''mindVectorUpdate''" by (simp add: eval_defs)
  have f: "truthy (opt_prop update_msg ''data'')" by (simp add: eval_defs)
  have h: "history ?s = []" by (simp add: eval_defs)
  from t a have 1: "history (step StringToNumber_digits push_props ?s (WsMessage 0 (Some ping) ''t'')) = history ?s"
    by simp
  from t b c d e f have 2: "history (step StringToNumber_digits push_props ?s (WsMessage 0 (Some update_msg) ''t''))
      = history_push (ws_vector (opt_prop update_msg ''data'') ''t'') (history ?s)"
    by blast
  have i: "0 < inflight ?q" by (simp add: eval_defs)
  have j: "history ?q = []" by (simp add: eval_defs)
  have k: "statusMessage (step StringToNumber_digits poll_props ?q
        (FetchSettled (Response 200 (Some JNull)) ''t'')) = ''HTTP error''"
    by (simp add: eval_defs)
  from u have 3: "history (step StringToNumber_digits poll_props ?q
        (FetchSettled (Response 200 (Some JNull)) ''t'')) = history ?q"
    by blast
  from a b c d e f i k 1 2 3 show ?thesis
    by (simp add: h j history_push_def)
qed


section \<open>The radar data\<close>

text \<open>
  C1 as stated fails: an update with two dimensions named \<^verbatim>\<open>a\<close>, one of them with the
  value \<^verbatim>\<open>1e999\<close> (which \<^verbatim>\<open>JSON.parse\<close> reads as \<^verbatim>\<open>Infinity\<close>), is accepted, and its radar
  data keeps both entries and the infinite value.
\<close>

theorem radar_data_counterexample:
  "map_option (normalizeToRadarData id StringToNumber_digits)
     (current (run StringToNumber_digits push_props initial
        [Mount, WsOpen 0, WsMessage 0 (Some dup_msg) ''t''])) =
     Some (Some (Inr [\<lparr>subject = ''a'', rvalue = PosInf\<rparr>, \<lparr>subject = ''a'', rvalue = Fin 12\<rparr>]))
   \<and> \<not> distinct (map subject [\<lparr>subject = ''a'', rvalue = PosInf\<rparr>, \<lparr>subject = ''a'', rvalue = Fin 12\<rparr>])
   \<and> \<not> list_all (\<lambda>r. is_finite (rvalue r))
         [\<lparr>subject = ''a'', rvalue = PosInf\<rparr>, \<lparr>subject = ''a'', rvalue = Fin 12\<rparr>]"
  by (simp add: eval_defs)

lemma map_exn_total:
  "(\<And>x. x \<in> set xs \<Longrightarrow> f x = Inr (g x)) \<Longrightarrow> map_exn f xs = Inr (map g xs)"
  by (induction xs) simp_all

lemma map_exn_throws:
  "\<exists>x \<in> set xs. f x = Inl TypeError \<Longrightarrow> map_exn f xs = Inl TypeError"
proof (induction xs)
  case Nil
  then show ?case by simp
next
  case (Cons x xs)
  show ?case
  proof (cases "f x")
    case (Inl e)
    then show ?thesis by (cases e) simp
  next
    case (Inr y)
    with Cons show ?thesis
      by (auto split: sum.splits)
  qed
qed

lemma radar_of_converts:
  "\<not> to_string_throws (dim_value d) \<Longrightarrow>
     radar_of s2n d =
       Inr \<lparr>subject = dim_name d,
            rvalue = (if number_value s2n (dim_value d) = NaN then Fin 0
                      else number_value s2n (dim_value d))\<rparr>"
  by (simp add: radar_of_def Number_def num_or_zero_def)

lemma radar_of_throws: "to_string_throws (dim_value d) \<Longrightarrow> radar_of s2n d = Inl TypeError"
  by (simp add: radar_of_def Number_def)

text \<open>
  C1, amended. For every vector whose dimensions are an array of objects with a string
  name, \<^verbatim>\<open>normalizeToRadarData\<close> returns one entry per dimension (duplicate names kept),
  sorted ascending by name in collation order, each with the value \<^verbatim>\<open>Number(value)\<close> and
  \<^verbatim>\<open>NaN\<close> replaced by 0: no value is \<^verbatim>\<open>NaN\<close>, an infinite one stays. (Where a value
  cannot be converted to a number at all, the function throws.)
\<close>

theorem radar_data_sorted_not_NaN:
  assumes "as_dimensions (dimensions vector) = Some ds"
  shows "((\<forall>d \<in> set ds. \<not> to_string_throws (dim_value d)) \<longrightarrow>
      (\<exists>out. normalizeToRadarData collate s2n vector = Some (Inr out)
         \<and> out = map (\<lambda>d. \<lparr>subject = dim_name d,
                            rvalue = (if number_value s2n (dim_value d) = NaN then Fin 0
                                      else number_value s2n (dim_value d))\<rparr>)
                   (sort_key (\<lambda>d. collate (dim_name d)) ds)
         \<and> sorted (map (\<lambda>r. collate (subject r)) out)
         \<and> mset (map subject out) = mset (map dim_name ds)
         \<and> (\<forall>r \<in> set out. rvalue r \<noteq> NaN)))
     \<and> ((\<exists>d \<in> set ds. to_string_throws (dim_value d)) \<longrightarrow>
          normalizeToRadarData collate s2n vector = Some (Inl TypeError))"
proof -
  let ?sds = "sort_key (\<lambda>d. collate (dim_name d)) ds"
  let ?g = "\<lambda>d. \<lparr>subject = dim_name d,
                  rvalue = (if number_value s2n (dim_value d) = NaN then Fin 0
                            else number_value s2n (dim_value d))\<rparr>"
  have n: "normalizeToRadarData collate s2n vector = Some (map_exn (radar_of s2n) ?sds)"
    using assms by (simp add: normalizeToRadarData_def)
  have a: "\<exists>out. normalizeToRadarData collate s2n vector = Some (Inr out)
         \<and> out = map ?g ?sds
         \<and> sorted (map (\<lambda>r. collate (subject r)) out)
         \<and> mset (map subject out) = mset (map dim_name ds)
         \<and> (\<forall>r \<in> set out. rvalue r \<noteq> NaN)"
    if ok: "\<forall>d \<in> set ds. \<not> to_string_throws (dim_value d)"
  proof -
    have "map_exn (radar_of s2n) ?sds = Inr (map ?g ?sds)"
      by (rule map_exn_total) (simp add: ok radar_of_converts)
    with n have 1: "normalizeToRadarData collate s2n vector = Some (Inr (map ?g ?sds))"
      by simp
    have "map (\<lambda>r. collate (subject r)) (map ?g ?sds) = map (\<lambda>d. collate (dim_name d)) ?sds"
      by simp
    then have 2: "sorted (map (\<lambda>r. collate (subject r)) (map ?g ?sds))"
      by (simp only: sorted_sort_key)
    have "map subject (map ?g ?sds) = map dim_name ?sds"
      by simp
    then have "mset (map subject (map ?g ?sds)) = mset (map dim_name ?sds)"
      by (rule arg_cong)
    then have 3: "mset (map subject (map ?g ?sds)) = mset (map dim_name ds)"
      by (simp only: mset_map mset_sort)
    have 4: "\<forall>r \<in> set (map ?g ?sds). rvalue r \<noteq> NaN"
      by auto
    from 1 2 3 4 show ?thesis by blast
  qed
  have b: "normalizeToRadarData collate s2n vector = Some (Inl TypeError)"
    if bad: "\<exists>d \<in> set ds. to_string_throws (dim_value d)"
  proof -
    from bad obtain d where "d \<in> set ds" and "to_string_throws (dim_value d)"
      by blast
    then have "d \<in> set ?sds" and "radar_of s2n d = Inl TypeError"
      by (simp_all add: radar_of_throws)
    then have "\<exists>d \<in> set ?sds. radar_of s2n d = Inl TypeError"
      by blast
    then have "map_exn (radar_of s2n) ?sds = Inl TypeError"
      by (rule map_exn_throws)
    with n show ?thesis by simp
  qed
  from a b show ?thesis by blast
qed

theorem radar_data_sorted_not_NaN_witness:
  "as_dimensions (dimensions scenario_vector) =
     Some [\<lparr>dim_name = ''b'', dim_value = JNum (Fin 1)\<rparr>, \<lparr>dim_name = ''a'', dim_value = JStr ''x''\<rparr>]
   \<and> \<not> to_string_throws (JNum (Fin 1)) \<and> \<not> to_string_throws (JStr ''x'')
   \<and> normalizeToRadarData id StringToNumber_digits scenario_vector =
       Some (Inr [\<lparr>subject = ''a'', rvalue = Fin 0\<rparr>, \<lparr>subject = ''b'', rvalue = Fin 1\<rparr>])
   \<and> (\<exists>out. normalizeToRadarData id StringToNumber_digits scenario_vector = Some (Inr out)
         \<and> sorted (map subject out) \<and> (\<forall>r \<in> set out. rvalue r \<noteq> NaN))
   \<and> to_string_throws (JObj [(''toString'', JNull)])
   \<and> normalizeToRadarData id StringToNumber_digits
        (scenario_vector\<lparr>dimensions :=
           JArr [JObj [(''name'', JStr ''a''), (''value'', JObj [(''toString'', JNull)])]]\<rparr>) =
       Some (Inl TypeError)"
proof -
  let ?bad = "scenario_vector\<lparr>dimensions :=
           JArr [JObj [(''name'', JStr ''a''), (''value'', JObj [(''toString'', JNull)])]]\<rparr>"
  have a: "as_dimensions (dimensions scenario_vector) =
     Some [\<lparr>dim_name = ''b'', dim_value = JNum (Fin 1)\<rparr>, \<lparr>dim_name = ''a'', dim_value = JStr ''x''\<rparr>]"
    by (simp add: eval_defs)
  have b: "normalizeToRadarData id StringToNumber_digits scenario_vector =
       Some (Inr [\<lparr>subject = ''a'', rvalue = Fin 0\<rparr>, \<lparr>subject = ''b'', rvalue = Fin 1\<rparr>])"
    by (simp add: eval_defs)
  have c: "as_dimensions (dimensions ?bad) =
     Some [\<lparr>dim_name = ''a'', dim_value = JObj [(''toString'', JNull)]\<rparr>]"
    by (simp add: eval_defs)
  from radar_data_sorted_not_NaN [OF a, of id StringToNumber_digits]
  have 1: "\<exists>out. normalizeToRadarData id StringToNumber_digits scenario_vector = Some (Inr out)
         \<and> sorted (map subject out) \<and> (\<forall>r \<in> set out. rvalue r \<noteq> NaN)"
    by auto
  from radar_data_sorted_not_NaN [OF c, of id StringToNumber_digits]
  have 2: "normalizeToRadarData id StringToNumber_digits ?bad = Some (Inl TypeError)"
    by simp
  from a b 1 2 show ?thesis by simp
qed

section \<open>No fallback to polling\<close>

text \<open>With a push endpoint and a wallet address, no request is ever issued and no interval started.\<close>

lemma push_configured_never_polls:
  assumes "given (websocketUrl p)" and "given (walletAddress p)"
  shows "reachable s2n p s \<Longrightarrow> requests s = [] \<and> intervals s = [] \<and> pollingRef s = None \<and> inflight s = 0"
proof (induction rule: reachable.induct)
  case reach_initial
  show ?case by (simp add: initial_def)
next
  case (reach_step s ev)
  with assms show ?case
    by (cases ev)
      (auto simp: step_def handler_defs accept_def Let_def
        split: option.splits fetch_outcome.splits sum.splits)
qed

text \<open>
  C3 on the code. With both endpoints configured, after the socket has opened and then
  closed (or failed), the status text announces the HTTP fallback, yet no interval runs
  and no request was issued.
\<close>

theorem push_closed_no_polling:
  "statusMessage (run StringToNumber_digits push_props initial [Mount, WsOpen 0, WsClose 0]) =
     ''WebSocket closed. Falling back to HTTP.''
   \<and> intervals (run StringToNumber_digits push_props initial [Mount, WsOpen 0, WsClose 0]) = []
   \<and> pollingRef (run StringToNumber_digits push_props initial [Mount, WsOpen 0, WsClose 0]) = None
   \<and> requests (run StringToNumber_digits push_props initial [Mount, WsOpen 0, WsClose 0]) = []
   \<and> inflight (run StringToNumber_digits push_props initial [Mount, WsOpen 0, WsClose 0]) = 0
   \<and> statusMessage (run StringToNumber_digits push_props initial [Mount, WsOpen 0, WsError 0]) =
     ''WebSocket error. Using HTTP fallback.''
   \<and> requests (run StringToNumber_digits push_props initial [Mount, WsOpen 0, WsError 0, WsClose 0]) = []
   \<and> intervals (run StringToNumber_digits push_props initial [Mount, WsOpen 0, WsError 0, WsClose 0]) = []"
  by (simp add: eval_defs)

section \<open>After disposal\<close>

text \<open>
  Once \<^verbatim>\<open>mountedRef\<close> is false, no event short of a new mount stores a vector, appends to
  the history or calls the callback.
\<close>

lemma unmounted_step_silent:
  assumes "\<not> mountedRef s"
  shows "current (step s2n p s ev) = current s \<and> history (step s2n p s ev) = history s
     \<and> updates (step s2n p s ev) = updates s"
  using step_effect [of s2n p s ev] assms by blast

lemma unmounted_stays:
  assumes "\<not> mountedRef s" and "ev \<noteq> Mount"
  shows "\<not> mountedRef (step s2n p s ev)"
  using assms
  by (cases ev)
    (auto simp: step_def handler_defs accept_def Let_def
      split: option.splits fetch_outcome.splits sum.splits)

lemma dispose_unmounts: "\<not> mountedRef (step s2n p s Dispose)"
  by (simp add: step_def dispose_def Let_def ws_close_def split: option.splits)

lemma unmounted_run_silent:
  "\<not> mountedRef s \<Longrightarrow> Mount \<notin> set evs \<Longrightarrow>
     current (run s2n p s evs) = current s \<and> history (run s2n p s evs) = history s
     \<and> updates (run s2n p s evs) = updates s"
proof (induction evs arbitrary: s)
  case Nil
  show ?case by (simp add: run_Nil)
next
  case (Cons ev evs)
  from Cons.prems have "ev \<noteq> Mount" by auto
  with Cons.prems(1) have u: "\<not> mountedRef (step s2n p s ev)"
    by (rule unmounted_stays)
  from Cons.prems have "Mount \<notin> set evs" by simp
  from Cons.IH [OF u this] unmounted_step_silent [OF Cons.prems(1), of s2n p ev]
  show ?case by (simp add: run_Cons)
qed

text \<open>
  C4 on the code. The status text is still written after disposal: by a request that
  was in flight and then fails, and by the close event of the socket that the disposal
  closed, which also arms a new reconnection timeout.
\<close>

theorem status_changes_after_dispose:
  "\<not> mountedRef (run StringToNumber_digits poll_props initial [Mount, Dispose])
   \<and> statusMessage (run StringToNumber_digits poll_props initial [Mount, Dispose]) =
       ''Fetching mind vector via HTTP'' @ ellipsis
   \<and> statusMessage (run StringToNumber_digits poll_props initial
        [Mount, Dispose, FetchSettled Rejected ''t'']) = ''HTTP error''
   \<and> statusMessage (run StringToNumber_digits poll_props initial
        [Mount, Dispose, FetchSettled (Response 500 None) ''t'']) = ''HTTP fetch failed: 500''
   \<and> statusMessage (run StringToNumber_digits push_props initial [Mount, WsOpen 0, Dispose]) =
       ''Connected. Subscribing to mind vector updates'' @ ellipsis
   \<and> statusMessage (run StringToNumber_digits push_props initial
        [Mount, WsOpen 0, Dispose, WsClose 0]) = ''WebSocket closed. Falling back to HTTP.''
   \<and> reconnectTimers (run StringToNumber_digits push_props initial
        [Mount, WsOpen 0, Dispose, WsClose 0]) = 1"
  by (simp add: eval_defs show_nat_500)

end
